theory Spec2Isabelle
  imports Complex_Main
begin

section \<open>Values: tensors of floating-point numbers\<close>

text \<open>
  The builders of \<^verbatim>\<open>graphnet/models/graph_builders.py\<close> work on torch tensors. A finite
  floating-point number is modelled by the real number it stands for (no rounding); the
  three special values that the arithmetic of the affinity builder can produce from finite
  inputs (a division by \<open>sigma ** 2 = 0\<close>) are kept as values of their own.
\<close>

datatype fl = Fin real | PInf | NInf | NaN

fun fl_div :: "fl \<Rightarrow> fl \<Rightarrow> fl" where
  "fl_div (Fin a) (Fin b) =
     (if b = 0 then (if a = 0 then NaN else if 0 < a then PInf else NInf) else Fin (a / b))"
| "fl_div (Fin a) PInf = Fin 0"
| "fl_div (Fin a) NInf = Fin 0"
| "fl_div PInf (Fin b) = (if 0 \<le> b then PInf else NInf)"
| "fl_div NInf (Fin b) = (if 0 \<le> b then NInf else PInf)"
| "fl_div _ _ = NaN"

fun fl_exp :: "fl \<Rightarrow> fl" where
  "fl_exp (Fin a) = Fin (exp a)"
| "fl_exp PInf = PInf"
| "fl_exp NInf = Fin 0"
| "fl_exp NaN = NaN"

fun fl_add :: "fl \<Rightarrow> fl \<Rightarrow> fl" where
  "fl_add (Fin a) (Fin b) = Fin (a + b)"
| "fl_add NaN _ = NaN"
| "fl_add _ NaN = NaN"
| "fl_add PInf NInf = NaN"
| "fl_add NInf PInf = NaN"
| "fl_add PInf _ = PInf"
| "fl_add _ PInf = PInf"
| "fl_add NInf _ = NInf"
| "fl_add _ NInf = NInf"

text \<open>\<^verbatim>\<open>t.sum()\<close> over one row: the entries are added from left to right, starting at 0.\<close>

definition fl_sum :: "fl list \<Rightarrow> fl" where
  "fl_sum vs = foldl fl_add (Fin 0) vs"

text \<open>\<^verbatim>\<open>w > threshold\<close>: a comparison with NaN is false.\<close>

fun fl_gt :: "fl \<Rightarrow> real \<Rightarrow> bool" where
  "fl_gt (Fin a) t = (t < a)"
| "fl_gt PInf t = True"
| "fl_gt NInf t = False"
| "fl_gt NaN t = False"

text \<open>
  A two-dimensional tensor of finite values: its rows and the size of its second dimension
  (which an empty tensor has too).
\<close>

record tensor2 =
  ncols :: nat
  rows :: "real list list"

definition wf_tensor :: "tensor2 \<Rightarrow> bool" where
  "wf_tensor t = list_all (\<lambda>r. length r = ncols t) (rows t)"

datatype py_error = IndexError

text \<open>
  \<^verbatim>\<open>t[:, columns]\<close> with a list of Python ints: an index \<open>c\<close> is accepted when
  \<open>-d \<le> c < d\<close> for the width \<open>d\<close>, a negative one counting from the end.
\<close>

definition py_index :: "nat \<Rightarrow> int \<Rightarrow> nat" where
  "py_index d c = (if c < 0 then nat (int d + c) else nat c)"

definition index_ok :: "nat \<Rightarrow> int \<Rightarrow> bool" where
  "index_ok d c = (- int d \<le> c \<and> c < int d)"

definition index_columns :: "tensor2 \<Rightarrow> int list \<Rightarrow> py_error + tensor2" where
  "index_columns t cols =
     (if list_all (index_ok (ncols t)) cols
      then Inr \<lparr>ncols = length cols,
                rows = map (\<lambda>r. map (\<lambda>c. r ! py_index (ncols t) c) cols) (rows t)\<rparr>
      else Inl IndexError)"

section \<open>The data object\<close>

text \<open>
  \<^verbatim>\<open>torch_geometric.data.Data\<close>: the node features \<open>x\<close>, the batch assignment, the
  adjacency \<open>edge_index\<close> (a 2 x E tensor, here the list of its E columns, each a pair
  of source and target) and the edge weights; both may be absent (\<^verbatim>\<open>None\<close>). Every other
  attribute of the object lives in the extension part of the record.
\<close>

record Data =
  x :: tensor2
  batch :: "int list"
  edge_index :: "(nat \<times> nat) list option"
  edge_weight :: "fl list option"

definition wf_data :: "'a Data_scheme \<Rightarrow> bool" where
  "wf_data data = (wf_tensor (x data) \<and> length (batch data) = length (rows (x data)))"

text \<open>What \<^verbatim>\<open>self.logger.info\<close> receives: a tuple holding one string.\<close>

datatype log_record = Info "string list"

definition overwrite_warning :: "string list" where
  "overwrite_warning =
     [''WARNING: GraphBuilder received graph with pre-existing structure. '' @ ''Will overwrite.'']"

definition log_preexisting :: "'a Data_scheme \<Rightarrow> log_record list" where
  "log_preexisting data = (if edge_index data \<noteq> None then [Info overwrite_warning] else [])"

text \<open>\<^verbatim>\<open>.to(device)\<close> moves a tensor and leaves its values as they are.\<close>

definition to_device :: "'a \<Rightarrow> string option \<Rightarrow> 'a" where
  "to_device t dev = t"

section \<open>Distances\<close>

text \<open>
  Modelled from the spec: \<^verbatim>\<open>graphnet.models.utils.calculate_distance_matrix\<close> is imported by
  the builders and its source is not among the files at hand. Section 4.1 of the
  specification gives its contract: entry \<open>[i, j]\<close> is the Euclidean distance between the
  rows \<open>i\<close> and \<open>j\<close> of the (column-restricted) coordinates.
\<close>

definition euclidean_distance :: "real list \<Rightarrow> real list \<Rightarrow> real" where
  "euclidean_distance p q = sqrt (\<Sum>(a, b)\<leftarrow>zip p q. (a - b)\<^sup>2)"

definition calculate_distance_matrix :: "tensor2 \<Rightarrow> real list list" where
  "calculate_distance_matrix t = map (\<lambda>p. map (\<lambda>q. euclidean_distance p q) (rows t)) (rows t)"

section \<open>The neighbour searches of the graph library\<close>

text \<open>
  Modelled from the spec: \<^verbatim>\<open>knn_graph\<close> is imported from \<^verbatim>\<open>torch_geometric.nn\<close> and its
  source is not among the files at hand. Section 4.2 of the specification: for every point
  \<open>p\<close>, the \<open>k\<close> points of the same batch, \<open>p\<close> excluded, with the smallest distance to
  \<open>p\<close>, ties broken by ascending point index; one edge per pair, from the neighbour to
  \<open>p\<close>. The candidates are listed by ascending index and \<open>sort_key\<close> is stable.
\<close>

definition knn_neighbours :: "tensor2 \<Rightarrow> int \<Rightarrow> int list \<Rightarrow> nat \<Rightarrow> nat list" where
  "knn_neighbours pts k b p =
     take (nat k)
       (sort_key (\<lambda>q. euclidean_distance (rows pts ! p) (rows pts ! q))
          (filter (\<lambda>q. q \<noteq> p \<and> b ! q = b ! p) [0..<length (rows pts)]))"

definition knn_graph :: "tensor2 \<Rightarrow> int \<Rightarrow> int list \<Rightarrow> (nat \<times> nat) list" where
  "knn_graph pts k b =
     concat (map (\<lambda>p. map (\<lambda>q. (q, p)) (knn_neighbours pts k b p)) [0..<length (rows pts)])"

text \<open>
  Modelled from the spec: \<^verbatim>\<open>radius_graph\<close> is imported from \<^verbatim>\<open>torch_geometric.nn\<close> and
  its source is not among the files at hand. Section 4.3 of the specification: every pair
  \<open>(i, j)\<close> of the same batch, \<open>i \<noteq> j\<close>, with \<open>distance(i, j) \<le> r\<close> is connected, in both
  directions.
\<close>

definition radius_neighbours :: "tensor2 \<Rightarrow> real \<Rightarrow> int list \<Rightarrow> nat \<Rightarrow> nat list" where
  "radius_neighbours pts r b p =
     filter (\<lambda>q. q \<noteq> p \<and> b ! q = b ! p
                 \<and> euclidean_distance (rows pts ! p) (rows pts ! q) \<le> r)
       [0..<length (rows pts)]"

definition radius_graph :: "tensor2 \<Rightarrow> real \<Rightarrow> int list \<Rightarrow> (nat \<times> nat) list" where
  "radius_graph pts r b =
     concat (map (\<lambda>p. map (\<lambda>q. (q, p)) (radius_neighbours pts r b p)) [0..<length (rows pts)])"

section \<open>KNNGraphBuilder\<close>

record KNNGraphBuilder =
  knn_nb_nearest_neighbours :: int
  knn_columns :: "int list"
  knn_device :: "string option"

definition KNNGraphBuilder_init :: "int \<Rightarrow> int list option \<Rightarrow> string option \<Rightarrow> KNNGraphBuilder" where
  "KNNGraphBuilder_init nb_nearest_neighbours columns device =
     \<lparr>knn_nb_nearest_neighbours = nb_nearest_neighbours,
      knn_columns = (case columns of None \<Rightarrow> [0, 1, 2] | Some cs \<Rightarrow> cs),
      knn_device = device\<rparr>"

text \<open>
  \<open>forward\<close> returns what was logged and either the exception raised or the data object
  after the call. The log call comes first, so its record is there when the indexing
  fails afterwards; the assignment to \<open>edge_index\<close> comes last, so a failing call leaves
  the object as it was.
\<close>

definition KNNGraphBuilder_forward ::
  "KNNGraphBuilder \<Rightarrow> 'a Data_scheme \<Rightarrow> log_record list \<times> (py_error + 'a Data_scheme)" where
  "KNNGraphBuilder_forward self data =
     (log_preexisting data,
      case index_columns (x data) (knn_columns self) of
        Inl e \<Rightarrow> Inl e
      | Inr pts \<Rightarrow>
          Inr (data\<lparr>edge_index :=
                 Some (to_device (knn_graph pts (knn_nb_nearest_neighbours self) (batch data))
                         (knn_device self))\<rparr>))"

section \<open>RadialGraphBuilder\<close>

record RadialGraphBuilder =
  rad_radius :: real
  rad_columns :: "int list"
  rad_device :: "string option"

definition RadialGraphBuilder_init :: "real \<Rightarrow> int list option \<Rightarrow> string option \<Rightarrow> RadialGraphBuilder" where
  "RadialGraphBuilder_init radius columns device =
     \<lparr>rad_radius = radius,
      rad_columns = (case columns of None \<Rightarrow> [0, 1, 2] | Some cs \<Rightarrow> cs),
      rad_device = device\<rparr>"

definition RadialGraphBuilder_forward ::
  "RadialGraphBuilder \<Rightarrow> 'a Data_scheme \<Rightarrow> log_record list \<times> (py_error + 'a Data_scheme)" where
  "RadialGraphBuilder_forward self data =
     (log_preexisting data,
      case index_columns (x data) (rad_columns self) of
        Inl e \<Rightarrow> Inl e
      | Inr pts \<Rightarrow>
          Inr (data\<lparr>edge_index :=
                 Some (to_device (radius_graph pts (rad_radius self) (batch data))
                         (rad_device self))\<rparr>))"

section \<open>EuclideanGraphBuilder\<close>

record EuclideanGraphBuilder =
  euc_sigma :: real
  euc_threshold :: real
  euc_columns :: "int list"

definition EuclideanGraphBuilder_init :: "real \<Rightarrow> real \<Rightarrow> int list option \<Rightarrow> EuclideanGraphBuilder" where
  "EuclideanGraphBuilder_init sigma threshold columns =
     \<lparr>euc_sigma = sigma,
      euc_threshold = threshold,
      euc_columns = (case columns of None \<Rightarrow> [0, 1, 2] | Some cs \<Rightarrow> cs)\<rparr>"

text \<open>
  \<^verbatim>\<open>data.batch.unsqueeze(dim=0) == data.batch.unsqueeze(dim=1)\<close>: entry \<open>[i, j]\<close> compares
  \<open>batch[j]\<close> (the row vector) with \<open>batch[i]\<close> (the column vector).
\<close>

definition batch_mask :: "int list \<Rightarrow> bool list list" where
  "batch_mask b = map (\<lambda>bi. map (\<lambda>bj. bj = bi) b) b"

text \<open>\<^verbatim>\<open>torch.exp(-0.5 * distance_matrix**2 / self._sigma**2)\<close>, entry by entry.\<close>

definition affinity_matrix :: "real \<Rightarrow> real list list \<Rightarrow> fl list list" where
  "affinity_matrix sigma dm =
     map (map (\<lambda>d. fl_exp (fl_div (Fin (- 0.5 * d\<^sup>2)) (Fin (sigma\<^sup>2))))) dm"

text \<open>\<^verbatim>\<open>torch.exp(affinity_matrix).sum(axis=1)\<close>.\<close>

definition exp_row_sums :: "fl list list \<Rightarrow> fl list" where
  "exp_row_sums am = map (\<lambda>row. fl_sum (map fl_exp row)) am"

text \<open>
  \<^verbatim>\<open>torch.exp(affinity_matrix) / exp_row_sums.unsqueeze(dim=1)\<close>: every entry of row \<open>i\<close>
  is divided by the \<open>i\<close>-th sum.
\<close>

definition weighted_adj_matrix :: "fl list list \<Rightarrow> fl list list" where
  "weighted_adj_matrix am =
     map (\<lambda>(row, s). map (\<lambda>a. fl_div (fl_exp a) s) row) (zip am (exp_row_sums am))"

text \<open>\<^verbatim>\<open>(weighted_adj_matrix > self._threshold) & (batch_mask)\<close>, entry by entry.\<close>

definition keep_matrix :: "fl list list \<Rightarrow> real \<Rightarrow> bool list list \<Rightarrow> bool list list" where
  "keep_matrix wm threshold bm =
     map (\<lambda>(wrow, mrow). map (\<lambda>(w, m). fl_gt w threshold \<and> m) (zip wrow mrow)) (zip wm bm)"

text \<open>
  \<^verbatim>\<open>torch.where(cond)\<close> on a matrix: the positions of the true entries in row-major order,
  here as the list of pairs (row, column) and not as two index tensors.
\<close>

definition where_true :: "bool list list \<Rightarrow> (nat \<times> nat) list" where
  "where_true cond =
     concat (map (\<lambda>i. map (\<lambda>j. (i, j)) (filter (\<lambda>j. cond ! i ! j) [0..<length (cond ! i)]))
               [0..<length cond])"

definition EuclideanGraphBuilder_forward ::
  "EuclideanGraphBuilder \<Rightarrow> 'a Data_scheme \<Rightarrow> log_record list \<times> (py_error + 'a Data_scheme)" where
  "EuclideanGraphBuilder_forward self data =
     (log_preexisting data,
      case index_columns (x data) (euc_columns self) of
        Inl e \<Rightarrow> Inl e
      | Inr xyz_coords \<Rightarrow>
          (let bm = batch_mask (batch data);
               distance_matrix = calculate_distance_matrix xyz_coords;
               am = affinity_matrix (euc_sigma self) distance_matrix;
               wm = weighted_adj_matrix am;
               edges = where_true (keep_matrix wm (euc_threshold self) bm);
               edge_weights = map (\<lambda>(s, t). wm ! s ! t) edges
           in Inr (data\<lparr>edge_index := Some edges, edge_weight := Some edge_weights\<rparr>)))"

section \<open>The formulas of the specification\<close>

text \<open>
  Section 4.4 of the specification, in its own words and over the reals, for the points
  \<open>pts\<close> restricted to the selected columns: the Gaussian affinity
  \<open>A[i,j] = exp(-0.5 * D[i,j]^2 / sigma^2)\<close>, the doubly exponential row normalisation
  \<open>W[i,j] = exp(A[i,j]) / sum_k exp(A[i,k])\<close>, and the edges kept: \<open>(i, j)\<close> with
  \<open>W[i,j] > threshold\<close> and both points in the same batch. These are compared below with
  what the code computes.
\<close>

definition spec_affinity :: "real \<Rightarrow> tensor2 \<Rightarrow> nat \<Rightarrow> nat \<Rightarrow> real" where
  "spec_affinity sigma pts i j =
     exp (- 0.5 * (euclidean_distance (rows pts ! i) (rows pts ! j))\<^sup>2 / sigma\<^sup>2)"

definition spec_weight :: "real \<Rightarrow> tensor2 \<Rightarrow> nat \<Rightarrow> nat \<Rightarrow> real" where
  "spec_weight sigma pts i j =
     exp (spec_affinity sigma pts i j) / (\<Sum>k<length (rows pts). exp (spec_affinity sigma pts i k))"

definition spec_edges :: "real \<Rightarrow> real \<Rightarrow> tensor2 \<Rightarrow> int list \<Rightarrow> (nat \<times> nat) list" where
  "spec_edges sigma threshold pts b =
     concat (map (\<lambda>i. map (\<lambda>j. (i, j))
               (filter (\<lambda>j. threshold < spec_weight sigma pts i j \<and> b ! j = b ! i)
                  [0..<length (rows pts)]))
             [0..<length (rows pts)])"

section \<open>A small point set\<close>

text \<open>
  Three points with four features each, the first two points in batch 0 and the third in
  batch 1; the default columns \<open>[0, 1, 2]\<close> select the coordinates \<open>demo_pts\<close>.
  And two points of one batch, at distance 1.
\<close>

definition demo_data :: Data where
  "demo_data = \<lparr>x = \<lparr>ncols = 4, rows = [[0, 0, 0, 7], [1, 0, 0, 8], [0, 0, 0, 9]]\<rparr>,
                 batch = [0, 0, 1], edge_index = None, edge_weight = None\<rparr>"

definition demo_pts :: tensor2 where
  "demo_pts = \<lparr>ncols = 3, rows = [[0, 0, 0], [1, 0, 0], [0, 0, 0]]\<rparr>"


section \<open>The number of surviving edges\<close>


section \<open>Objects passed by reference\<close>

text \<open>
  Python passes the data object by reference: \<open>forward\<close> assigns to attributes of the
  object it was given and returns that same object. With the objects in a store, a call
  of a builder's \<open>forward\<close> on the reference \<open>r\<close> replaces the object at \<open>r\<close> by its
  new state and returns \<open>r\<close>; a call that raises leaves the store as it was.
\<close>

type_synonym ref = nat

definition call_forward ::
  "('a Data_scheme \<Rightarrow> log_record list \<times> (py_error + 'a Data_scheme)) \<Rightarrow>
   (ref \<Rightarrow> 'a Data_scheme) \<Rightarrow> ref \<Rightarrow> log_record list \<times> (ref \<Rightarrow> 'a Data_scheme) \<times> (py_error + ref)" where
  "call_forward fwd h r =
     (case fwd (h r) of
        (lg, Inl e) \<Rightarrow> (lg, h, Inl e)
      | (lg, Inr d') \<Rightarrow> (lg, h(r := d'), Inr r))"

section \<open>Shapes and entries of the intermediate matrices\<close>

lemma set_where_true:
  "set (where_true c) = {(i, j). i < length c \<and> j < length (c ! i) \<and> c ! i ! j}"
  by (auto simp: where_true_def)

lemma length_keep_matrix:
  "length (keep_matrix wm t bm) = min (length wm) (length bm)"
  by (simp add: keep_matrix_def)

lemma length_keep_matrix_row:
  "i < length wm \<Longrightarrow> i < length bm \<Longrightarrow>
   length (keep_matrix wm t bm ! i) = min (length (wm ! i)) (length (bm ! i))"
  by (simp add: keep_matrix_def)

lemma keep_matrix_nth:
  "i < length wm \<Longrightarrow> i < length bm \<Longrightarrow> j < length (wm ! i) \<Longrightarrow> j < length (bm ! i) \<Longrightarrow>
   keep_matrix wm t bm ! i ! j = (fl_gt (wm ! i ! j) t \<and> bm ! i ! j)"
  by (simp add: keep_matrix_def)

lemma set_where_keep:
  "set (where_true (keep_matrix wm t bm)) =
     {(i, j). i < length wm \<and> i < length bm \<and> j < length (wm ! i) \<and> j < length (bm ! i)
        \<and> fl_gt (wm ! i ! j) t \<and> bm ! i ! j}"
  by (auto simp: set_where_true length_keep_matrix length_keep_matrix_row keep_matrix_nth)

lemma length_batch_mask: "length (batch_mask b) = length b"
  by (simp add: batch_mask_def)

lemma length_batch_mask_row: "i < length b \<Longrightarrow> length (batch_mask b ! i) = length b"
  by (simp add: batch_mask_def)

lemma batch_mask_nth:
  "i < length b \<Longrightarrow> j < length b \<Longrightarrow> batch_mask b ! i ! j = (b ! j = b ! i)"
  by (simp add: batch_mask_def)

lemma length_weighted_adj_matrix: "length (weighted_adj_matrix am) = length am"
  by (simp add: weighted_adj_matrix_def exp_row_sums_def)

lemma weighted_adj_matrix_row:
  "i < length am \<Longrightarrow>
   weighted_adj_matrix am ! i =
     map (\<lambda>a. fl_div (fl_exp a) (fl_sum (map fl_exp (am ! i)))) (am ! i)"
  by (simp add: weighted_adj_matrix_def exp_row_sums_def)

lemma length_affinity_matrix: "length (affinity_matrix sigma dm) = length dm"
  by (simp add: affinity_matrix_def)

lemma affinity_matrix_row:
  "i < length dm \<Longrightarrow>
   affinity_matrix sigma dm ! i =
     map (\<lambda>d. fl_exp (fl_div (Fin (- 0.5 * d\<^sup>2)) (Fin (sigma\<^sup>2)))) (dm ! i)"
  by (simp add: affinity_matrix_def)

lemma length_calculate_distance_matrix:
  "length (calculate_distance_matrix t) = length (rows t)"
  by (simp add: calculate_distance_matrix_def)

lemma calculate_distance_matrix_row:
  "i < length (rows t) \<Longrightarrow>
   calculate_distance_matrix t ! i = map (\<lambda>q. euclidean_distance (rows t ! i) q) (rows t)"
  by (simp add: calculate_distance_matrix_def)

lemma index_columns_rows:
  "index_columns t cols = Inr pts \<Longrightarrow> length (rows pts) = length (rows t)"
  by (auto simp: index_columns_def split: if_splits)

section \<open>Row sums\<close>

lemma foldl_fl_add_NaN: "foldl fl_add NaN vs = NaN"
  by (induction vs) auto

lemma fl_add_NaN_right: "fl_add v NaN = NaN"
  by (cases v) auto

lemma foldl_fl_add_has_NaN: "NaN \<in> set vs \<Longrightarrow> foldl fl_add a vs = NaN"
proof (induction vs arbitrary: a)
  case Nil
  then show ?case by simp
next
  case (Cons v vs)
  show ?case
  proof (cases "v = NaN")
    case True
    then show ?thesis by (simp add: fl_add_NaN_right foldl_fl_add_NaN)
  next
    case False
    with Cons.prems have "NaN \<in> set vs" by simp
    then show ?thesis by (simp add: Cons.IH)
  qed
qed

lemma fl_sum_has_NaN: "NaN \<in> set vs \<Longrightarrow> fl_sum vs = NaN"
  by (simp add: fl_sum_def foldl_fl_add_has_NaN)

lemma foldl_fl_add_Fin: "foldl fl_add (Fin a) (map Fin rs) = Fin (a + sum_list rs)"
  by (induction rs arbitrary: a) (auto simp: add.assoc)

lemma fl_sum_Fin: "fl_sum (map Fin rs) = Fin (sum_list rs)"
  by (simp add: fl_sum_def foldl_fl_add_Fin)

text \<open>A row whose entries are NaN or positive finite values sums to NaN or to a finite
  value that bounds every entry.\<close>

lemma fl_sum_pos_or_NaN:
  assumes "\<forall>v\<in>set vs. v = NaN \<or> (\<exists>r. v = Fin r \<and> 0 < r)"
  shows "fl_sum vs = NaN \<or> (\<exists>rs. vs = map Fin rs \<and> (\<forall>r\<in>set rs. 0 < r) \<and> fl_sum vs = Fin (sum_list rs))"
proof (cases "NaN \<in> set vs")
  case True
  then show ?thesis by (simp add: fl_sum_has_NaN)
next
  case False
  with assms have all: "\<forall>v\<in>set vs. \<exists>r. v = Fin r \<and> 0 < r" by metis
  define rs where "rs = map (\<lambda>v. case v of Fin r \<Rightarrow> r | _ \<Rightarrow> 0) vs"
  have "vs = map Fin rs"
    unfolding rs_def using all by (induction vs) auto
  moreover have "\<forall>r\<in>set rs. 0 < r"
    unfolding rs_def using all by auto
  ultimately show ?thesis using fl_sum_Fin by blast
qed

lemma member_le_sum_list_pos:
  fixes rs :: "real list"
  assumes "\<forall>r\<in>set rs. 0 < r" and "a \<in> set rs"
  shows "a \<le> sum_list rs" and "0 < sum_list rs"
proof -
  have nn: "\<forall>r\<in>set rs. 0 \<le> r" using assms(1) by (auto intro: less_imp_le)
  show "a \<le> sum_list rs" using nn assms(2) by (rule_tac member_le_sum_list) auto
  with assms show "0 < sum_list rs" by force
qed

section \<open>The range of the normalised weights\<close>

lemma affinity_entry_cases:
  "fl_exp (fl_exp (fl_div (Fin (- 0.5 * d\<^sup>2)) (Fin (s\<^sup>2)))) = NaN \<or>
   (\<exists>r. fl_exp (fl_exp (fl_div (Fin (- 0.5 * d\<^sup>2)) (Fin (s\<^sup>2)))) = Fin r \<and> 0 < r)"
  by (cases "s = 0"; cases "d = 0") (auto simp: not_less)

lemma exp_affinity_row_pos_or_NaN:
  assumes "i < length dm"
  shows "\<forall>v\<in>set (map fl_exp (affinity_matrix sigma dm ! i)). v = NaN \<or> (\<exists>r. v = Fin r \<and> 0 < r)"
  using assms affinity_entry_cases by (auto simp: affinity_matrix_row)

lemma normalised_entry_range:
  assumes row: "\<forall>v\<in>set vs. v = NaN \<or> (\<exists>r. v = Fin r \<and> 0 < r)"
    and v: "v \<in> set vs"
  shows "fl_div v (fl_sum vs) = NaN \<or> (\<exists>r. fl_div v (fl_sum vs) = Fin r \<and> 0 < r \<and> r \<le> 1)"
proof -
  from fl_sum_pos_or_NaN [OF row]
  consider "fl_sum vs = NaN"
    | rs where "vs = map Fin rs" "\<forall>r\<in>set rs. 0 < r" "fl_sum vs = Fin (sum_list rs)"
    by blast
  then show ?thesis
  proof cases
    case 1
    then show ?thesis by (cases v) auto
  next
    case 2
    from v 2(1) obtain a where a: "v = Fin a" "a \<in> set rs" by auto
    from member_le_sum_list_pos [OF 2(2) a(2)] have le: "a \<le> sum_list rs" and pos: "0 < sum_list rs" .
    from 2(2) a(2) have "0 < a" by blast
    with le pos show ?thesis by (simp add: a(1) 2(3))
  qed
qed

lemma weighted_adj_matrix_entry_range:
  assumes "i < length dm" and "j < length (dm ! i)"
    and w_def: "w = weighted_adj_matrix (affinity_matrix sigma dm) ! i ! j"
  shows "w = NaN \<or> (\<exists>r. w = Fin r \<and> 0 < r \<and> r \<le> 1)"
proof -
  let ?am = "affinity_matrix sigma dm"
  let ?vs = "map fl_exp (?am ! i)"
  have len: "length (?am ! i) = length (dm ! i)"
    using assms(1) by (simp add: affinity_matrix_row)
  have "w = fl_div (?vs ! j) (fl_sum ?vs)"
    using assms(1,2) len by (simp add: w_def weighted_adj_matrix_row length_affinity_matrix)
  moreover have "?vs ! j \<in> set ?vs"
    using assms(2) len by (metis length_map nth_mem)
  ultimately show ?thesis
    using normalised_entry_range [OF exp_affinity_row_pos_or_NaN [OF assms(1)]] by metis
qed

lemma length_weighted_adj_matrix_row:
  "i < length am \<Longrightarrow> length (weighted_adj_matrix am ! i) = length (am ! i)"
  by (simp add: weighted_adj_matrix_row)

lemma length_affinity_matrix_row:
  "i < length dm \<Longrightarrow> length (affinity_matrix sigma dm ! i) = length (dm ! i)"
  by (simp add: affinity_matrix_row)

section \<open>The code computes the formulas of the specification\<close>



lemma affinity_row_spec:
  assumes "sigma \<noteq> 0" and "i < length (rows pts)"
  shows "affinity_matrix sigma (calculate_distance_matrix pts) ! i =
           map (\<lambda>j. Fin (spec_affinity sigma pts i j)) [0..<length (rows pts)]"
  using assms
  by (auto simp: affinity_matrix_row length_calculate_distance_matrix
      calculate_distance_matrix_row spec_affinity_def intro!: nth_equalityI)

lemma sum_list_map_upt: "sum_list (map f [0..<n]) = (\<Sum>k<n. f k)"
  by (simp add: interv_sum_list_conv_sum_set_nat atLeast0LessThan)

lemma exp_row_sum_spec:
  assumes "sigma \<noteq> 0" and "i < length (rows pts)"
  shows "fl_sum (map fl_exp (affinity_matrix sigma (calculate_distance_matrix pts) ! i)) =
           Fin (\<Sum>k<length (rows pts). exp (spec_affinity sigma pts i k))"
proof -
  have "map fl_exp (affinity_matrix sigma (calculate_distance_matrix pts) ! i) =
          map Fin (map (\<lambda>k. exp (spec_affinity sigma pts i k)) [0..<length (rows pts)])"
    by (simp add: affinity_row_spec [OF assms] comp_def)
  then show ?thesis by (simp only: fl_sum_Fin sum_list_map_upt)
qed

lemma spec_row_sum_pos: "0 < n \<Longrightarrow> 0 < (\<Sum>k<n. exp (spec_affinity sigma pts i k))"
  by (rule sum_pos) auto

lemma weighted_row_spec:
  assumes "sigma \<noteq> 0" and "i < length (rows pts)"
  shows "weighted_adj_matrix (affinity_matrix sigma (calculate_distance_matrix pts)) ! i =
           map (\<lambda>j. Fin (spec_weight sigma pts i j)) [0..<length (rows pts)]"
proof -
  let ?am = "affinity_matrix sigma (calculate_distance_matrix pts)"
  have i: "i < length ?am"
    using assms(2) by (simp add: length_affinity_matrix length_calculate_distance_matrix)
  have "0 < length (rows pts)" using assms(2) by (cases "rows pts") auto
  from spec_row_sum_pos [OF this]
  have pos: "(\<Sum>k<length (rows pts). exp (spec_affinity sigma pts i k)) \<noteq> 0"
    by (rule less_imp_neq [THEN not_sym])
  show ?thesis
    unfolding weighted_adj_matrix_row [OF i] exp_row_sum_spec [OF assms]
    by (simp add: affinity_row_spec [OF assms] comp_def spec_weight_def pos)
qed

lemma length_weighted_spec:
  "length (weighted_adj_matrix (affinity_matrix sigma (calculate_distance_matrix pts))) = length (rows pts)"
  by (simp add: length_weighted_adj_matrix length_affinity_matrix length_calculate_distance_matrix)

lemma where_keep_spec:
  assumes "sigma \<noteq> 0" and "length b = length (rows pts)"
  shows "where_true (keep_matrix (weighted_adj_matrix (affinity_matrix sigma (calculate_distance_matrix pts)))
                       t (batch_mask b)) =
         concat (map (\<lambda>i. map (\<lambda>j. (i, j))
                   (filter (\<lambda>j. t < spec_weight sigma pts i j \<and> b ! j = b ! i) [0..<length (rows pts)]))
                 [0..<length (rows pts)])"
proof -
  let ?n = "length (rows pts)"
  let ?wm = "weighted_adj_matrix (affinity_matrix sigma (calculate_distance_matrix pts))"
  let ?c = "keep_matrix ?wm t (batch_mask b)"
  have len: "length ?c = ?n"
    by (simp add: length_keep_matrix length_weighted_spec length_batch_mask assms(2))
  have row: "length (?c ! i) = ?n" if "i < ?n" for i
    using that
    by (simp add: length_keep_matrix_row length_weighted_spec length_batch_mask assms
        weighted_row_spec length_batch_mask_row)
  have ent: "?c ! i ! j = (t < spec_weight sigma pts i j \<and> b ! j = b ! i)" if "i < ?n" "j < ?n" for i j
    using that
    by (simp add: keep_matrix_nth length_weighted_spec length_batch_mask assms
        weighted_row_spec length_batch_mask_row batch_mask_nth)
  show ?thesis
    unfolding where_true_def len
    by (intro arg_cong [where f = concat] map_cong refl arg_cong [where f = "map _"])
       (auto simp: row ent intro!: filter_cong)
qed

lemma set_spec_edges:
  "set (spec_edges sigma threshold pts b) =
     {(i, j). i < length (rows pts) \<and> j < length (rows pts)
        \<and> threshold < spec_weight sigma pts i j \<and> b ! j = b ! i}"
  by (auto simp: spec_edges_def)

lemma weighted_entry_spec:
  assumes "sigma \<noteq> 0" and "i < length (rows pts)" and "j < length (rows pts)"
  shows "weighted_adj_matrix (affinity_matrix sigma (calculate_distance_matrix pts)) ! i ! j =
           Fin (spec_weight sigma pts i j)"
  using assms by (simp add: weighted_row_spec)


lemma Euclidean_forward_spec:
  assumes "euc_sigma self \<noteq> 0"
    and "length (batch data) = length (rows (x data))"
    and "index_columns (x data) (euc_columns self) = Inr pts"
  shows "snd (EuclideanGraphBuilder_forward self data) =
           Inr (data\<lparr>edge_index :=
                       Some (spec_edges (euc_sigma self) (euc_threshold self) pts (batch data)),
                     edge_weight :=
                       Some (map (\<lambda>(i, j). Fin (spec_weight (euc_sigma self) pts i j))
                               (spec_edges (euc_sigma self) (euc_threshold self) pts (batch data)))\<rparr>)"
proof -
  let ?es = "spec_edges (euc_sigma self) (euc_threshold self) pts (batch data)"
  let ?wm = "weighted_adj_matrix (affinity_matrix (euc_sigma self) (calculate_distance_matrix pts))"
  have len: "length (batch data) = length (rows pts)"
    using assms(2) index_columns_rows [OF assms(3)] by simp
  have es: "where_true (keep_matrix ?wm (euc_threshold self) (batch_mask (batch data))) = ?es"
    unfolding spec_edges_def by (rule where_keep_spec [OF assms(1) len])
  have ws: "map (\<lambda>(s, t). ?wm ! s ! t) ?es =
            map (\<lambda>(i, j). Fin (spec_weight (euc_sigma self) pts i j)) ?es"
    by (rule map_cong [OF refl]) (auto simp: set_spec_edges weighted_entry_spec [OF assms(1)])
  show ?thesis
    by (simp add: EuclideanGraphBuilder_forward_def assms(3) Let_def es ws)
qed

lemma set_knn_graph_subset:
  "(q, p) \<in> set (knn_graph pts k b) \<Longrightarrow>
     p < length (rows pts) \<and> q < length (rows pts) \<and> q \<noteq> p \<and> b ! q = b ! p"
  by (auto simp: knn_graph_def knn_neighbours_def dest!: in_set_takeD)

lemma set_radius_graph:
  "set (radius_graph pts r b) =
     {(q, p). p < length (rows pts) \<and> q < length (rows pts) \<and> q \<noteq> p \<and> b ! q = b ! p
        \<and> euclidean_distance (rows pts ! p) (rows pts ! q) \<le> r}"
  by (auto simp: radius_graph_def radius_neighbours_def)

lemma Euclidean_forward_edges_subset:
  assumes "snd (EuclideanGraphBuilder_forward self data) = Inr d'"
    and "edge_index d' = Some es" and "(i, j) \<in> set es"
  shows "i < length (batch data) \<and> j < length (batch data) \<and> batch data ! j = batch data ! i"
proof -
  from assms(1) obtain pts where pts: "index_columns (x data) (euc_columns self) = Inr pts"
    by (auto simp: EuclideanGraphBuilder_forward_def split: sum.splits)
  from assms pts obtain wm where "(i, j) \<in> set (where_true (keep_matrix wm (euc_threshold self) (batch_mask (batch data))))"
    by (auto simp: EuclideanGraphBuilder_forward_def Let_def)
  then have i: "i < length (batch data)" and j: "j < length (batch_mask (batch data) ! i)"
    and m: "batch_mask (batch data) ! i ! j"
    by (auto simp: set_where_keep length_batch_mask)
  from i j have "j < length (batch data)" by (simp add: length_batch_mask_row)
  with i m show ?thesis by (simp add: batch_mask_nth)
qed

section \<open>Further facts about the builders\<close>

lemma euclidean_distance_commute: "euclidean_distance p q = euclidean_distance q p"
proof -
  have "map (\<lambda>(a, b). (a - b)\<^sup>2) (zip p q) = map (\<lambda>(a, b). (a - b)\<^sup>2) (zip q p)"
    by (induction p q rule: list_induct2') (simp_all add: power2_commute)
  then show ?thesis by (simp add: euclidean_distance_def)
qed


lemma spec_weight_pos: "rows pts \<noteq> [] \<Longrightarrow> 0 < spec_weight sigma pts i j"
  unfolding spec_weight_def by (intro divide_pos_pos spec_row_sum_pos) auto


subsection \<open>Edges into one point of the KNN graph\<close>

lemma filter_snd_concat:
  "filter (\<lambda>e. snd e = p) (concat (map (\<lambda>p'. map (\<lambda>q. (q, p')) (f p')) ps)) =
     concat (map (\<lambda>p'. if p' = p then map (\<lambda>q. (q, p)) (f p) else []) ps)"
  by (induction ps) (auto simp: filter_map comp_def)

lemma concat_single_upt:
  "p < n \<Longrightarrow> concat (map (\<lambda>p'. if p' = p then ys else []) [0..<n]) = ys"
proof (induction n)
  case 0
  then show ?case by simp
next
  case (Suc n)
  show ?case
  proof (cases "p = n")
    case True
    have "concat (map (\<lambda>p'. if p' = n then ys else []) [0..<n]) = []"
      by (induction n) auto
    then show ?thesis using True
      by auto
  next
    case False
    with Suc show ?thesis by simp
  qed
qed

lemma knn_graph_into:
  "p < length (rows pts) \<Longrightarrow>
   filter (\<lambda>e. snd e = p) (knn_graph pts k b) = map (\<lambda>q. (q, p)) (knn_neighbours pts k b p)"
  by (simp add: knn_graph_def filter_snd_concat concat_single_upt)

lemma length_filter_others:
  assumes "p < n" and "P p"
  shows "length (filter (\<lambda>q. q \<noteq> p \<and> P q) [0..<n]) = length (filter P [0..<n]) - 1"
proof -
  have "length (filter P [0..<n]) =
          length (filter (\<lambda>q. q = p) (filter P [0..<n])) + length (filter (\<lambda>q. q \<noteq> p) (filter P [0..<n]))"
    using sum_length_filter_compl [of "\<lambda>q. q = p" "filter P [0..<n]"] by simp
  moreover have "filter (\<lambda>q. q = p) (filter P [0..<n]) = filter (\<lambda>q. q = p) [0..<n]"
    using assms(2) by (auto intro: filter_cong)
  moreover have "length (filter (\<lambda>q. q = p) [0..<n]) = 1"
  proof -
    have "{i. i < length [0..<n] \<and> [0..<n] ! i = p} = {p}" using assms(1) by auto
    then show ?thesis by (simp only: length_filter_conv_card card.empty card_insert_disjoint finite.emptyI empty_iff not_False_eq_True One_nat_def)
  qed
  moreover have "filter (\<lambda>q. q \<noteq> p) (filter P [0..<n]) = filter (\<lambda>q. q \<noteq> p \<and> P q) [0..<n]"
    by (auto intro: filter_cong)
  ultimately show ?thesis by simp
qed

lemma length_knn_neighbours:
  assumes "p < length (rows pts)"
  shows "length (knn_neighbours pts k b p) =
           min (nat k) (length (filter (\<lambda>q. b ! q = b ! p) [0..<length (rows pts)]) - 1)"
  using length_filter_others [OF assms, of "\<lambda>q. b ! q = b ! p"]
  by (simp add: knn_neighbours_def)

lemma set_knn_neighbours_all:
  assumes "length (filter (\<lambda>q. b ! q = b ! p) [0..<length (rows pts)]) - 1 \<le> nat k"
    and "p < length (rows pts)"
  shows "set (knn_neighbours pts k b p) = {q. q < length (rows pts) \<and> q \<noteq> p \<and> b ! q = b ! p}"
proof -
  let ?cs = "filter (\<lambda>q. q \<noteq> p \<and> b ! q = b ! p) [0..<length (rows pts)]"
  have "length ?cs \<le> nat k"
    using assms length_filter_others [OF assms(2), of "\<lambda>q. b ! q = b ! p"] by simp
  then have "knn_neighbours pts k b p =
      sort_key (\<lambda>q. euclidean_distance (rows pts ! p) (rows pts ! q)) ?cs"
    by (simp add: knn_neighbours_def)
  then show ?thesis by auto
qed

subsection \<open>The affinity builder at \<open>sigma = 0\<close>\<close>




subsection \<open>A floor under the normalised weights\<close>




section \<open>The small point sets, evaluated\<close>

lemma upt3: "[0..<3] = [0, 1, 2]"
  by (simp add: upt_rec)


lemma demo_wf: "wf_data demo_data"
  by (simp add: demo_data_def wf_data_def wf_tensor_def)

lemma demo_cols: "index_columns (x demo_data) [0, 1, 2] = Inr demo_pts"
  by (simp add: demo_data_def demo_pts_def index_columns_def index_ok_def py_index_def)


lemma demo_spec_edges:
  "spec_edges 1 0 demo_pts [0, 0, 1] = [(0, 0), (0, 1), (1, 0), (1, 1), (2, 2)]"
  by (simp add: spec_edges_def demo_pts_def upt3 spec_weight_pos)

lemma demo_Euclidean_forward:
  "snd (EuclideanGraphBuilder_forward (EuclideanGraphBuilder_init 1 0 None) demo_data) =
     Inr (demo_data\<lparr>edge_index := Some [(0, 0), (0, 1), (1, 0), (1, 1), (2, 2)],
                    edge_weight := Some (map (\<lambda>(i, j). Fin (spec_weight 1 demo_pts i j))
                                           [(0, 0), (0, 1), (1, 0), (1, 1), (2, 2)])\<rparr>)"
proof -
  let ?self = "EuclideanGraphBuilder_init 1 0 None"
  have s: "euc_sigma ?self \<noteq> 0" by (simp add: EuclideanGraphBuilder_init_def)
  have l: "length (batch demo_data) = length (rows (x demo_data))" by (simp add: demo_data_def)
  have c: "index_columns (x demo_data) (euc_columns ?self) = Inr demo_pts"
    by (simp add: EuclideanGraphBuilder_init_def demo_cols)
  have b: "batch demo_data = [0, 0, 1]" by (simp add: demo_data_def)
  have e: "euc_sigma ?self = 1" "euc_threshold ?self = 0" by (simp_all add: EuclideanGraphBuilder_init_def)
  show ?thesis
    unfolding Euclidean_forward_spec [OF s l c] b e demo_spec_edges ..
qed

lemma demo_radius_graph: "radius_graph demo_pts (3 / 2) [0, 0, 1] = [(1, 0), (0, 1)]"
  by (simp add: radius_graph_def radius_neighbours_def upt3 euclidean_distance_def demo_pts_def)

lemma demo_knn_graph: "knn_graph demo_pts 1 [0, 0, 1] = [(1, 0), (0, 1)]"
  by (simp add: knn_graph_def knn_neighbours_def upt3 euclidean_distance_def demo_pts_def)

lemma demo_Radial_forward:
  "snd (RadialGraphBuilder_forward (RadialGraphBuilder_init (3 / 2) None None) demo_data) =
     Inr (demo_data\<lparr>edge_index := Some [(1, 0), (0, 1)]\<rparr>)"
proof -
  have b: "batch demo_data = [0, 0, 1]" by (simp add: demo_data_def)
  show ?thesis
    by (simp add: RadialGraphBuilder_forward_def RadialGraphBuilder_init_def demo_cols
        to_device_def b demo_radius_graph)
qed

lemma demo_KNN_forward:
  "snd (KNNGraphBuilder_forward (KNNGraphBuilder_init 1 None None) demo_data) =
     Inr (demo_data\<lparr>edge_index := Some [(1, 0), (0, 1)]\<rparr>)"
proof -
  have b: "batch demo_data = [0, 0, 1]" by (simp add: demo_data_def)
  show ?thesis
    by (simp add: KNNGraphBuilder_forward_def KNNGraphBuilder_init_def demo_cols
        to_device_def b demo_knn_graph)
qed




















section \<open>Claims\<close>

text \<open>
  Claim C1. For every well-formed input and each of the three builders, every edge
  \<open>(i, j)\<close> of the returned edge list connects two points of the input with the same
  batch id: no builder produces an edge across batches. (The neighbour searches of the KNN
  and the radial builder are the ones modelled from the specification above; the affinity
  builder's part rests on \<open>batch_mask\<close>.)
\<close>

theorem no_cross_batch_edges:
  assumes "wf_data data"
    and "snd (KNNGraphBuilder_forward kb data) = Inr d' \<or>
         snd (RadialGraphBuilder_forward rb data) = Inr d' \<or>
         snd (EuclideanGraphBuilder_forward eb data) = Inr d'"
    and "edge_index d' = Some es"
    and "(i, j) \<in> set es"
  shows "i < length (batch data) \<and> j < length (batch data) \<and> batch data ! i = batch data ! j"
  using assms(2)
proof (elim disjE)
  assume a: "snd (KNNGraphBuilder_forward kb data) = Inr d'"
  then obtain pts where pts: "index_columns (x data) (knn_columns kb) = Inr pts"
    by (auto simp: KNNGraphBuilder_forward_def split: sum.splits)
  with a assms(3,4) have "(i, j) \<in> set (knn_graph pts (knn_nb_nearest_neighbours kb) (batch data))"
    by (auto simp: KNNGraphBuilder_forward_def to_device_def)
  from set_knn_graph_subset [OF this] index_columns_rows [OF pts] assms(1)
  show ?thesis by (simp add: wf_data_def)
next
  assume a: "snd (RadialGraphBuilder_forward rb data) = Inr d'"
  then obtain pts where pts: "index_columns (x data) (rad_columns rb) = Inr pts"
    by (auto simp: RadialGraphBuilder_forward_def split: sum.splits)
  with a assms(3,4) have "(i, j) \<in> set (radius_graph pts (rad_radius rb) (batch data))"
    by (auto simp: RadialGraphBuilder_forward_def to_device_def)
  with index_columns_rows [OF pts] assms(1)
  show ?thesis by (simp add: wf_data_def set_radius_graph)
next
  assume "snd (EuclideanGraphBuilder_forward eb data) = Inr d'"
  from Euclidean_forward_edges_subset [OF this assms(3,4)]
  show ?thesis by simp
qed

theorem no_cross_batch_edges_witness:
  "wf_data demo_data
   \<and> snd (EuclideanGraphBuilder_forward (EuclideanGraphBuilder_init 1 0 None) demo_data) =
     Inr (demo_data\<lparr>edge_index := Some [(0, 0), (0, 1), (1, 0), (1, 1), (2, 2)],
                    edge_weight := Some (map (\<lambda>(i, j). Fin (spec_weight 1 demo_pts i j))
                                           [(0, 0), (0, 1), (1, 0), (1, 1), (2, 2)])\<rparr>)
   \<and> batch demo_data ! 0 = batch demo_data ! 1"
proof -
  have "(0, 1) \<in> set [(0, 0), (0, 1), (1, 0), (1, 1), (2, 2::nat)]" by simp
  from no_cross_batch_edges [OF demo_wf disjI2 [OF disjI2] _ this, OF demo_Euclidean_forward]
  show ?thesis using demo_wf demo_Euclidean_forward by simp
qed



text \<open>
  Claim C3. For every call of the radial builder on a well-formed input with valid columns,
  the call returns, and a pair \<open>(i, j)\<close> is an edge of the result if and only if \<open>i\<close> and
  \<open>j\<close> are distinct points of the same batch with \<open>distance(i, j) \<le> radius\<close>: every
  edge is within the radius (soundness) and every such pair is an edge (completeness).
  (The neighbour search is the one modelled from the specification above.)
\<close>

theorem radial_edges_sound_and_complete:
  assumes "wf_data data"
    and "index_columns (x data) (rad_columns self) = Inr pts"
  shows "\<exists>d' es. snd (RadialGraphBuilder_forward self data) = Inr d' \<and> edge_index d' = Some es
           \<and> ((i, j) \<in> set es \<longleftrightarrow>
                i < length (batch data) \<and> j < length (batch data) \<and> i \<noteq> j
                \<and> batch data ! i = batch data ! j
                \<and> euclidean_distance (rows pts ! i) (rows pts ! j) \<le> rad_radius self)"
proof -
  have n: "length (rows pts) = length (batch data)"
    using assms(1) index_columns_rows [OF assms(2)] by (simp add: wf_data_def)
  show ?thesis
    using n
    by (auto simp: RadialGraphBuilder_forward_def assms(2) to_device_def set_radius_graph
        euclidean_distance_commute [of "rows pts ! i" "rows pts ! j"])
qed

theorem radial_edges_sound_and_complete_witness:
  "wf_data demo_data
   \<and> index_columns (x demo_data) (rad_columns (RadialGraphBuilder_init (3 / 2) None None)) = Inr demo_pts
   \<and> snd (RadialGraphBuilder_forward (RadialGraphBuilder_init (3 / 2) None None) demo_data) =
       Inr (demo_data\<lparr>edge_index := Some [(1, 0), (0, 1)]\<rparr>)
   \<and> euclidean_distance (rows demo_pts ! 0) (rows demo_pts ! 1) \<le> 3 / 2
   \<and> batch demo_data ! 0 = batch demo_data ! 1"
proof -
  let ?self = "RadialGraphBuilder_init (3 / 2) None None"
  have c: "index_columns (x demo_data) (rad_columns ?self) = Inr demo_pts"
    by (simp add: RadialGraphBuilder_init_def demo_cols)
  from radial_edges_sound_and_complete [OF demo_wf c, of 0 1]
  obtain d' es where "snd (RadialGraphBuilder_forward ?self demo_data) = Inr d'"
    and "edge_index d' = Some es"
    and iff: "(0, 1) \<in> set es \<longleftrightarrow>
                0 < length (batch demo_data) \<and> 1 < length (batch demo_data) \<and> (0::nat) \<noteq> 1
                \<and> batch demo_data ! 0 = batch demo_data ! 1
                \<and> euclidean_distance (rows demo_pts ! 0) (rows demo_pts ! 1) \<le> rad_radius ?self"
    by blast
  then have "es = [(1, 0), (0, 1)]" by (auto simp: demo_Radial_forward)
  with iff have "euclidean_distance (rows demo_pts ! 0) (rows demo_pts ! 1) \<le> rad_radius ?self"
    and "batch demo_data ! 0 = batch demo_data ! 1" by simp_all
  then show ?thesis
    using demo_wf c demo_Radial_forward by (simp add: RadialGraphBuilder_init_def)
qed

text \<open>
  Claim C4. For every point \<open>p\<close> in a batch of \<open>n\<close> points and \<open>k \<ge> 1\<close>, the KNN
  builder produces exactly \<open>min(k, n - 1)\<close> edges with target \<open>p\<close>; when the batch has
  fewer than \<open>k + 1\<close> points, the sources of these edges are all the other points of the
  batch; and a batch of exactly one point contributes no edge. (The neighbour search is the
  one modelled from the specification above.)
\<close>

theorem knn_in_degree:
  assumes "wf_data data"
    and "1 \<le> knn_nb_nearest_neighbours self"
    and "index_columns (x data) (knn_columns self) = Inr pts"
    and "p < length (batch data)"
    and "n = length (filter (\<lambda>q. batch data ! q = batch data ! p) [0..<length (batch data)])"
  shows "\<exists>d' es. snd (KNNGraphBuilder_forward self data) = Inr d' \<and> edge_index d' = Some es
           \<and> length (filter (\<lambda>e. snd e = p) es) = min (nat (knn_nb_nearest_neighbours self)) (n - 1)
           \<and> (n < nat (knn_nb_nearest_neighbours self) + 1 \<longrightarrow>
                {q. (q, p) \<in> set es} = {q. q < length (batch data) \<and> q \<noteq> p \<and> batch data ! q = batch data ! p})
           \<and> (n = 1 \<longrightarrow> filter (\<lambda>e. snd e = p) es = [])"
proof -
  let ?k = "knn_nb_nearest_neighbours self"
  let ?es = "knn_graph pts ?k (batch data)"
  have len: "length (rows pts) = length (batch data)"
    using assms(1) index_columns_rows [OF assms(3)] by (simp add: wf_data_def)
  have p: "p < length (rows pts)" using assms(4) len by simp
  have fwd: "snd (KNNGraphBuilder_forward self data) = Inr (data\<lparr>edge_index := Some ?es\<rparr>)"
    by (simp add: KNNGraphBuilder_forward_def assms(3) to_device_def)
  have cnt: "length (filter (\<lambda>e. snd e = p) ?es) = min (nat ?k) (n - 1)"
    by (simp add: knn_graph_into [OF p] length_knn_neighbours [OF p] len assms(5))
  have into: "{q. (q, p) \<in> set ?es} = set (knn_neighbours pts ?k (batch data) p)"
  proof -
    have "{q. (q, p) \<in> set ?es} = {q. (q, p) \<in> set (filter (\<lambda>e. snd e = p) ?es)}" by auto
    also have "\<dots> = set (knn_neighbours pts ?k (batch data) p)"
      unfolding knn_graph_into [OF p] by auto
    finally show ?thesis .
  qed
  have all: "{q. (q, p) \<in> set ?es} =
               {q. q < length (batch data) \<and> q \<noteq> p \<and> batch data ! q = batch data ! p}"
    if "n < nat ?k + 1"
  proof -
    from that have "length (filter (\<lambda>q. batch data ! q = batch data ! p) [0..<length (rows pts)]) - 1 \<le> nat ?k"
      by (simp add: len assms(5))
    from set_knn_neighbours_all [OF this p] into show ?thesis by (simp add: len)
  qed
  have one: "filter (\<lambda>e. snd e = p) ?es = []" if "n = 1"
    using cnt that by simp
  show ?thesis
    using fwd cnt all one by simp
qed

theorem knn_in_degree_witness:
  "wf_data demo_data
   \<and> 1 \<le> knn_nb_nearest_neighbours (KNNGraphBuilder_init 1 None None)
   \<and> index_columns (x demo_data) (knn_columns (KNNGraphBuilder_init 1 None None)) = Inr demo_pts
   \<and> (0 :: nat) < length (batch demo_data)
   \<and> (2 :: nat) = length (filter (\<lambda>q. batch demo_data ! q = batch demo_data ! 0) [0..<length (batch demo_data)])
   \<and> snd (KNNGraphBuilder_forward (KNNGraphBuilder_init 1 None None) demo_data) =
       Inr (demo_data\<lparr>edge_index := Some [(1, 0), (0, 1)]\<rparr>)
   \<and> length (filter (\<lambda>e. snd e = (0 :: nat)) [(1 :: nat, 0), (0, 1)]) = min (nat 1) (2 - 1)"
proof -
  let ?self = "KNNGraphBuilder_init 1 None None"
  have k: "1 \<le> knn_nb_nearest_neighbours ?self" by (simp add: KNNGraphBuilder_init_def)
  have c: "index_columns (x demo_data) (knn_columns ?self) = Inr demo_pts"
    by (simp add: KNNGraphBuilder_init_def demo_cols)
  have p: "(0 :: nat) < length (batch demo_data)" by (simp add: demo_data_def)
  have n: "(2 :: nat) = length (filter (\<lambda>q. batch demo_data ! q = batch demo_data ! 0) [0..<length (batch demo_data)])"
    by (simp add: demo_data_def upt3)
  from knn_in_degree [OF demo_wf k c p n]
  obtain d' es where "snd (KNNGraphBuilder_forward ?self demo_data) = Inr d'"
    and "edge_index d' = Some es"
    and cnt: "length (filter (\<lambda>e. snd e = 0) es) = min (nat (knn_nb_nearest_neighbours ?self)) (2 - 1)"
    by blast
  then have "es = [(1, 0), (0, 1)]" by (auto simp: demo_KNN_forward)
  with cnt have "length (filter (\<lambda>e. snd e = (0 :: nat)) [(1 :: nat, 0), (0, 1)]) = min (nat 1) (2 - 1)"
    by (simp add: KNNGraphBuilder_init_def)
  with demo_wf k c p n demo_KNN_forward show ?thesis by blast
qed




text \<open>
  Claim C6. If the input already carries a graph (\<open>edge_index\<close> is not \<open>None\<close>), every
  builder logs the warning (through \<open>logger.info\<close>, with a text that starts with
  \<open>WARNING:\<close>) and then does exactly what it does on the same object without a graph: it
  fails in the same cases, and the adjacency it stores is the newly computed one, with
  nothing of the old edges in it.
\<close>

theorem preexisting_structure_overwritten:
  assumes "edge_index data = Some old"
  shows "fst (KNNGraphBuilder_forward kb data) = [Info overwrite_warning]
       \<and> snd (KNNGraphBuilder_forward kb data) = snd (KNNGraphBuilder_forward kb (data\<lparr>edge_index := None\<rparr>))
       \<and> fst (RadialGraphBuilder_forward rb data) = [Info overwrite_warning]
       \<and> snd (RadialGraphBuilder_forward rb data) = snd (RadialGraphBuilder_forward rb (data\<lparr>edge_index := None\<rparr>))
       \<and> fst (EuclideanGraphBuilder_forward eb data) = [Info overwrite_warning]
       \<and> snd (EuclideanGraphBuilder_forward eb data) = snd (EuclideanGraphBuilder_forward eb (data\<lparr>edge_index := None\<rparr>))"
  using assms
  by (simp add: KNNGraphBuilder_forward_def RadialGraphBuilder_forward_def
      EuclideanGraphBuilder_forward_def log_preexisting_def Let_def split: sum.splits)

theorem preexisting_structure_overwritten_witness:
  "edge_index (demo_data\<lparr>edge_index := Some [(0, 2)]\<rparr>) = Some [(0, 2)]
   \<and> fst (KNNGraphBuilder_forward (KNNGraphBuilder_init 1 None None) (demo_data\<lparr>edge_index := Some [(0, 2)]\<rparr>))
       = [Info overwrite_warning]
   \<and> snd (KNNGraphBuilder_forward (KNNGraphBuilder_init 1 None None) (demo_data\<lparr>edge_index := Some [(0, 2)]\<rparr>))
       = Inr (demo_data\<lparr>edge_index := Some [(1, 0), (0, 1)]\<rparr>)
   \<and> fst (RadialGraphBuilder_forward (RadialGraphBuilder_init (3 / 2) None None) (demo_data\<lparr>edge_index := Some [(0, 2)]\<rparr>))
       = [Info overwrite_warning]
   \<and> snd (RadialGraphBuilder_forward (RadialGraphBuilder_init (3 / 2) None None) (demo_data\<lparr>edge_index := Some [(0, 2)]\<rparr>))
       = Inr (demo_data\<lparr>edge_index := Some [(1, 0), (0, 1)]\<rparr>)
   \<and> fst (EuclideanGraphBuilder_forward (EuclideanGraphBuilder_init 1 0 None) (demo_data\<lparr>edge_index := Some [(0, 2)]\<rparr>))
       = [Info overwrite_warning]
   \<and> snd (EuclideanGraphBuilder_forward (EuclideanGraphBuilder_init 1 0 None) (demo_data\<lparr>edge_index := Some [(0, 2)]\<rparr>))
       = Inr (demo_data\<lparr>edge_index := Some [(0, 0), (0, 1), (1, 0), (1, 1), (2, 2)],
                      edge_weight := Some (map (\<lambda>(i, j). Fin (spec_weight 1 demo_pts i j))
                                             [(0, 0), (0, 1), (1, 0), (1, 1), (2, 2)])\<rparr>)"
proof -
  let ?d = "demo_data\<lparr>edge_index := Some [(0, 2)]\<rparr>"
  have old: "edge_index ?d = Some [(0, 2)]" by simp
  have none: "?d\<lparr>edge_index := None\<rparr> = demo_data" by (simp add: demo_data_def)
  from preexisting_structure_overwritten [OF old,
      of "KNNGraphBuilder_init 1 None None" "RadialGraphBuilder_init (3 / 2) None None"
         "EuclideanGraphBuilder_init 1 0 None"]
  show ?thesis
    unfolding none demo_KNN_forward demo_Radial_forward demo_Euclidean_forward
    using old by simp
qed

text \<open>
  Claim C7. Every edge weight that the affinity builder attaches to an edge lies in the
  half-open interval (0, 1]: it is a finite number, strictly positive and at most 1. This
  holds for every configuration and every input on which the call returns.
\<close>

theorem affinity_weights_in_unit_interval:
  assumes "snd (EuclideanGraphBuilder_forward self data) = Inr d'"
    and "edge_weight d' = Some ws"
    and "w \<in> set ws"
  shows "\<exists>r. w = Fin r \<and> 0 < r \<and> r \<le> 1"
proof -
  from assms(1) obtain pts where pts: "index_columns (x data) (euc_columns self) = Inr pts"
    by (auto simp: EuclideanGraphBuilder_forward_def split: sum.splits)
  define dm where "dm = calculate_distance_matrix pts"
  define wm where "wm = weighted_adj_matrix (affinity_matrix (euc_sigma self) dm)"
  define es where "es = where_true (keep_matrix wm (euc_threshold self) (batch_mask (batch data)))"
  have ws: "ws = map (\<lambda>(s, t). wm ! s ! t) es"
    using assms(1,2) pts by (auto simp: EuclideanGraphBuilder_forward_def Let_def dm_def wm_def es_def)
  with assms(3) obtain i j where ij: "(i, j) \<in> set es" and w: "w = wm ! i ! j" by auto
  from ij have i: "i < length wm" and j: "j < length (wm ! i)" and gt: "fl_gt (wm ! i ! j) (euc_threshold self)"
    by (auto simp: es_def set_where_keep)
  have i': "i < length dm"
    using i by (simp add: wm_def length_weighted_adj_matrix length_affinity_matrix)
  have j': "j < length (dm ! i)"
    using j i' by (simp add: wm_def length_weighted_adj_matrix_row length_affinity_matrix length_affinity_matrix_row)
  from weighted_adj_matrix_entry_range [OF i' j' refl, of "euc_sigma self"] gt
  show ?thesis unfolding w wm_def by auto
qed

theorem affinity_weights_in_unit_interval_witness:
  "snd (EuclideanGraphBuilder_forward (EuclideanGraphBuilder_init 1 0 None) demo_data) =
     Inr (demo_data\<lparr>edge_index := Some [(0, 0), (0, 1), (1, 0), (1, 1), (2, 2)],
                    edge_weight := Some (map (\<lambda>(i, j). Fin (spec_weight 1 demo_pts i j))
                                           [(0, 0), (0, 1), (1, 0), (1, 1), (2, 2)])\<rparr>)
   \<and> 0 < spec_weight 1 demo_pts 0 1 \<and> spec_weight 1 demo_pts 0 1 \<le> 1"
proof -
  let ?ws = "map (\<lambda>(i, j). Fin (spec_weight 1 demo_pts i j)) [(0, 0), (0, 1), (1, 0), (1, 1), (2, 2)]"
  have "Fin (spec_weight 1 demo_pts 0 1) \<in> set ?ws" by simp
  from affinity_weights_in_unit_interval [OF demo_Euclidean_forward _ this]
  show ?thesis using demo_Euclidean_forward by simp
qed






text \<open>
  Claim C10. A call of \<open>forward\<close> that returns hands back the reference it was given, and
  in the store only the object behind that reference has changed: for the KNN and the
  radial builder only its \<open>edge_index\<close>, for the affinity builder only its \<open>edge_index\<close>
  and \<open>edge_weight\<close>; \<open>x\<close>, \<open>batch\<close> and every other attribute are as before.
\<close>

theorem forward_changes_only_the_graph_fields:
  shows "(fwd = KNNGraphBuilder_forward kb \<or> fwd = RadialGraphBuilder_forward rb \<longrightarrow>
          call_forward fwd h r = (lg, h', Inr r') \<longrightarrow>
            r' = r \<and> h' = h(r := (h r)\<lparr>edge_index := edge_index (h' r)\<rparr>))
       \<and> (call_forward (EuclideanGraphBuilder_forward eb) h r = (lg, h', Inr r') \<longrightarrow>
            r' = r \<and> h' = h(r := (h r)\<lparr>edge_index := edge_index (h' r), edge_weight := edge_weight (h' r)\<rparr>))
       \<and> (fwd = KNNGraphBuilder_forward kb \<or> fwd = RadialGraphBuilder_forward rb
            \<or> fwd = EuclideanGraphBuilder_forward eb \<longrightarrow>
          call_forward fwd h r = (lg, h', Inr r') \<longrightarrow>
            x (h' r) = x (h r) \<and> batch (h' r) = batch (h r) \<and> Data.more (h' r) = Data.more (h r)
            \<and> (\<forall>q. q \<noteq> r \<longrightarrow> h' q = h q))"
  by (auto simp: call_forward_def KNNGraphBuilder_forward_def RadialGraphBuilder_forward_def
      EuclideanGraphBuilder_forward_def Let_def split: sum.splits)

theorem forward_changes_only_the_graph_fields_witness:
  "call_forward (KNNGraphBuilder_forward (KNNGraphBuilder_init 1 None None)) (\<lambda>_. demo_data) 0
     = ([], (\<lambda>_. demo_data)(0 := demo_data\<lparr>edge_index := Some [(1, 0), (0, 1)]\<rparr>), Inr 0)
   \<and> x (((\<lambda>_. demo_data)(0 := demo_data\<lparr>edge_index := Some [(1, 0), (0, 1)]\<rparr>)) 0) = x demo_data
   \<and> batch (((\<lambda>_. demo_data)(0 := demo_data\<lparr>edge_index := Some [(1, 0), (0, 1)]\<rparr>)) 0) = batch demo_data
   \<and> edge_weight (((\<lambda>_. demo_data)(0 := demo_data\<lparr>edge_index := Some [(1, 0), (0, 1)]\<rparr>)) 0) = edge_weight demo_data
   \<and> ((\<lambda>_. demo_data)(0 := demo_data\<lparr>edge_index := Some [(1, 0), (0, 1)]\<rparr>)) (1 :: nat) = demo_data"
proof -
  let ?fwd = "KNNGraphBuilder_forward (KNNGraphBuilder_init 1 None None) :: Data \<Rightarrow> _"
  let ?h' = "(\<lambda>_. demo_data)(0 := demo_data\<lparr>edge_index := Some [(1, 0), (0, 1)]\<rparr>) :: nat \<Rightarrow> Data"
  have lg: "fst (?fwd demo_data) = []"
    by (simp add: KNNGraphBuilder_forward_def log_preexisting_def demo_data_def)
  have full: "?fwd demo_data = ([], Inr (demo_data\<lparr>edge_index := Some [(1, 0), (0, 1)]\<rparr>))"
    using lg demo_KNN_forward by (simp add: prod_eq_iff)
  have c: "call_forward ?fwd (\<lambda>_. demo_data) 0 = ([], ?h', Inr 0)"
    by (simp add: call_forward_def full)
  from forward_changes_only_the_graph_fields
    [of ?fwd "KNNGraphBuilder_init 1 None None" undefined "\<lambda>_. demo_data" 0 "[]" ?h' 0 undefined]
    c
  have "?h' = (\<lambda>_. demo_data)(0 := demo_data\<lparr>edge_index := edge_index (?h' 0)\<rparr>)"
    and "x (?h' 0) = x demo_data \<and> batch (?h' 0) = batch demo_data
          \<and> Data.more (?h' 0) = Data.more demo_data \<and> (\<forall>q. q \<noteq> 0 \<longrightarrow> ?h' q = demo_data)"
    by blast+
  with c show ?thesis by simp
qed

end
